theory Spec2Isabelle
  imports Main "HOL-Library.Char_ord" "HOL-Library.List_Lexorder" "HOL-Library.Multiset"
begin

section \<open>JavaScript values\<close>

text \<open>
  The scrobbler client (\<^verbatim>\<open>core/background/scrobblers/baseScrobbler.js\<close>) handles
  strings, numbers, \<^verbatim>\<open>null\<close> and \<^verbatim>\<open>undefined\<close>. A \<open>string\<close> stands for a JavaScript
  string whose UTF-16 code units are all below 256, one \<open>char\<close> per code unit; numbers
  are the integers (timestamps, durations).
\<close>

datatype jsval = JUndefined | JNull | JBool bool | JNum int | JStr string

text \<open>ToBoolean: what \<^verbatim>\<open>if (v)\<close>, \<^verbatim>\<open>!v\<close> and \<^verbatim>\<open>v || w\<close> test.\<close>

fun truthy :: "jsval \<Rightarrow> bool" where
  "truthy JUndefined = False"
| "truthy JNull = False"
| "truthy (JBool b) = b"
| "truthy (JNum n) = (n \<noteq> 0)"
| "truthy (JStr s) = (s \<noteq> [])"

text \<open>The operator \<^verbatim>\<open>a || b\<close>.\<close>

definition or_else :: "jsval \<Rightarrow> jsval \<Rightarrow> jsval" where
  "or_else a b = (if truthy a then a else b)"

definition digit_char :: "nat \<Rightarrow> char" where
  "digit_char d = char_of (of_char (CHR ''0'') + d)"

fun decimal :: "nat \<Rightarrow> string" where
  "decimal n = (if n < 10 then [digit_char n] else decimal (n div 10) @ [digit_char (n mod 10)])"

declare decimal.simps [simp del]

text \<open>ToString, as applied by string concatenation and by \<^verbatim>\<open>encodeURIComponent\<close>.\<close>

fun ToString :: "jsval \<Rightarrow> string" where
  "ToString JUndefined = ''undefined''"
| "ToString JNull = ''null''"
| "ToString (JBool b) = (if b then ''true'' else ''false'')"
| "ToString (JNum n) = (if n < 0 then CHR ''-'' # decimal (nat (- n)) else decimal (nat n))"
| "ToString (JStr s) = s"

subsection \<open>encodeURIComponent\<close>

text \<open>
  The platform function: the unreserved characters (letters, digits and
  \<^verbatim>\<open>- _ . ! ~ * ' ( )\<close>) stay, every other code unit is written as the
  percent-escaped bytes of its UTF-8 encoding, with upper-case hex digits.
\<close>

definition unreserved :: "char \<Rightarrow> bool" where
  "unreserved c = (c \<in> set (''ABCDEFGHIJKLMNOPQRSTUVWXYZabcdefghijklmnopqrstuvwxyz0123456789-_.!~*()'' @ [CHR 0x27]))"

definition hex_digit :: "nat \<Rightarrow> char" where
  "hex_digit d = ''0123456789ABCDEF'' ! (d mod 16)"

definition percent_byte :: "nat \<Rightarrow> string" where
  "percent_byte b = [CHR ''%'', hex_digit (b div 16), hex_digit b]"

definition encode_unit :: "char \<Rightarrow> string" where
  "encode_unit c =
     (let n = (of_char c :: nat) in
      if unreserved c then [c]
      else if n < 128 then percent_byte n
      else percent_byte (192 + n div 64) @ percent_byte (128 + n mod 64))"

definition encodeURIComponent :: "string \<Rightarrow> string" where
  "encodeURIComponent s = concat (map encode_unit s)"

section \<open>Parameter objects\<close>

text \<open>
  A parameter object is the sequence of its own enumerable properties in the order
  the caller created them. Property names of one object are distinct.
\<close>

type_synonym params = "(string \<times> jsval) list"

text \<open>
  An array index is the decimal form, without leading zeros, of an integer below
  \<open>2^32 - 1\<close>.
\<close>

definition is_digit :: "char \<Rightarrow> bool" where
  "is_digit c = (c \<in> set ''0123456789'')"

definition index_value :: "string \<Rightarrow> int" where
  "index_value k = foldl (\<lambda>n c. 10 * n + (of_char c - of_char (CHR ''0''))) 0 k"

definition is_array_index :: "string \<Rightarrow> bool" where
  "is_array_index k =
     (if k = [] \<or> \<not> list_all is_digit k then False
      else (k = ''0'' \<or> hd k \<noteq> CHR ''0'') \<and> index_value k < 4294967295)"

text \<open>
  \<^verbatim>\<open>for (var x in params)\<close> visits the properties whose names are array indices first,
  in ascending numeric order, and then all the others in the order of their creation.
\<close>

definition for_in :: "params \<Rightarrow> params" where
  "for_in ps =
     sort_key (\<lambda>p. index_value (fst p)) (filter (\<lambda>p. is_array_index (fst p)) ps) @
     filter (\<lambda>p. \<not> is_array_index (fst p)) ps"

definition own_keys :: "params \<Rightarrow> string list" where
  "own_keys ps = map fst (for_in ps)"

text \<open>\<^verbatim>\<open>params[x]\<close>: a missing property reads as \<^verbatim>\<open>undefined\<close>.\<close>

definition get_prop :: "params \<Rightarrow> string \<Rightarrow> jsval" where
  "get_prop ps x = (case map_of ps x of None \<Rightarrow> JUndefined | Some v \<Rightarrow> v)"

text \<open>\<^verbatim>\<open>params[x] = v\<close>: an existing property keeps its place, a new one goes last.\<close>

fun set_prop :: "params \<Rightarrow> string \<Rightarrow> jsval \<Rightarrow> params" where
  "set_prop [] x v = [(x, v)]"
| "set_prop ((k, w) # ps) x v = (if k = x then (k, v) # ps else (k, w) # set_prop ps x v)"

text \<open>\<^verbatim>\<open>parts.join(sep)\<close>\<close>

fun join :: "string \<Rightarrow> string list \<Rightarrow> string" where
  "join sep [] = []"
| "join sep [p] = p"
| "join sep (p # q # ps) = p @ sep @ join sep (q # ps)"

subsection \<open>createQueryString\<close>

text \<open>The loop of \<^verbatim>\<open>createQueryString\<close>: one \<^verbatim>\<open>parts.push\<close> per own key.\<close>

fun push_parts :: "params \<Rightarrow> string list \<Rightarrow> string list \<Rightarrow> string list" where
  "push_parts params [] parts = parts"
| "push_parts params (x # xs) parts =
     push_parts params xs (parts @ [x @ ''='' @ encodeURIComponent (ToString (get_prop params x))])"

definition createQueryString :: "params \<Rightarrow> string" where
  "createQueryString params = join ''&'' (push_parts params (own_keys params) [])"

subsection \<open>generateSign\<close>

text \<open>
  The second loop of \<^verbatim>\<open>generateSign\<close>, over the sorted keys, with the string \<open>o\<close>
  built so far.
\<close>

fun sign_loop :: "params \<Rightarrow> string list \<Rightarrow> string \<Rightarrow> string" where
  "sign_loop params [] o_acc = o_acc"
| "sign_loop params (k # keys) o_acc =
     (if k = ''format'' \<or> k = ''callback'' then sign_loop params keys o_acc
      else sign_loop params keys (o_acc @ k @ ToString (get_prop params k)))"

text \<open>
  \<^verbatim>\<open>vendor/md5\<close> is a parameter, \<open>md5\<close>; \<^verbatim>\<open>keys.sort()\<close> orders strings by their code
  units, which is the lexicographic order of \<open>string\<close>.
\<close>

definition generateSign :: "(string \<Rightarrow> string) \<Rightarrow> string \<Rightarrow> params \<Rightarrow> string" where
  "generateSign md5 apiSecret params =
     md5 (sign_loop params (sort (own_keys params)) [] @ apiSecret)"



section \<open>The scrobbler and its surroundings\<close>

text \<open>The options the constructor keeps.\<close>

record scrobbler =
  label :: string
  apiUrl :: string
  apiKey :: string
  apiSecret :: string
  authUrl :: string
  statusUrl :: string

text \<open>
  The object \<^verbatim>\<open>storage.get\<close> hands out and \<^verbatim>\<open>storage.set\<close> writes back. A field
  never written reads as \<^verbatim>\<open>undefined\<close>.
\<close>

record credentials =
  token :: jsval
  sessionID :: jsval
  sessionName :: jsval

definition empty_credentials :: credentials where
  "empty_credentials = \<lparr>token = JUndefined, sessionID = JUndefined, sessionName = JUndefined\<rparr>"

text \<open>
  Modelled from the spec: \<^verbatim>\<open>objects/serviceCallResult\<close> is not among the sources; a
  result is one of success, authentication error and other error.
\<close>

datatype ServiceCallResult = Ok | AuthError | OtherError

text \<open>
  What a promise can be rejected with: a \<^verbatim>\<open>ServiceCallResult\<close>, nothing
  (\<^verbatim>\<open>reject()\<close>), or an \<^verbatim>\<open>Error\<close> object with its message. A settled promise is
  \<open>Inl\<close> of the rejection or \<open>Inr\<close> of the value.
\<close>

datatype rejection = Rejected_with ServiceCallResult | Rejected_undefined | Rejected_Error string

datatype http_method = GET | POST

datatype request = Request http_method string

text \<open>
  \<^verbatim>\<open>fetch\<close> rejects on a network failure and otherwise resolves with the response,
  whatever its HTTP status code; the response carries the code and the body text.
\<close>

datatype fetch_outcome = NetworkFailure | Response nat string

text \<open>
  What the client reads of a parsed XML document: the \<^verbatim>\<open>status\<close> attribute of the
  \<^verbatim>\<open>lfm\<close> element (\<open>None\<close> for \<^verbatim>\<open>undefined\<close>) and the text of the \<^verbatim>\<open>token\<close> element.
\<close>

record xml_doc =
  lfm_status :: "string option"
  token_text :: string

text \<open>
  What the client reads of a parsed JSON body: \<^verbatim>\<open>data.session\<close> and its
  \<^verbatim>\<open>key\<close> and \<^verbatim>\<open>name\<close>. \<open>JsonNull\<close> is a body on which reading \<^verbatim>\<open>data.session\<close>
  throws, \<open>NoSession\<close> a \<^verbatim>\<open>data.session\<close> that is \<^verbatim>\<open>undefined\<close> or \<^verbatim>\<open>null\<close>.
\<close>

datatype session_field = NoSession | Session jsval jsval

datatype json_data = JsonNull | JsonData session_field

text \<open>
  The platform: the vendored MD5, the XML and JSON parsers (\<open>None\<close> when they throw)
  and the network. On an empty text the XML parser of jQuery returns \<^verbatim>\<open>null\<close> without
  throwing, which reads as a document with no elements.
\<close>

record platform =
  MD5 :: "string \<Rightarrow> string"
  parseXML :: "string \<Rightarrow> xml_doc option"
  parseJSON :: "string \<Rightarrow> json_data option"
  fetch :: "request \<Rightarrow> fetch_outcome"

text \<open>The session \<^verbatim>\<open>getSession\<close> resolves with.\<close>

record session =
  s_sessionID :: jsval
  s_sessionName :: jsval

text \<open>
  An operation returns how its promise settles, the credentials in the store afterwards
  and the requests it sent, in order.
\<close>

type_synonym 'a outcome = "(rejection + 'a) \<times> credentials \<times> request list"

subsection \<open>processResponse\<close>

definition processResponse :: "xml_doc \<Rightarrow> ServiceCallResult" where
  "processResponse doc = (if lfm_status doc \<noteq> Some ''ok'' then OtherError else Ok)"

subsection \<open>timeoutPromise\<close>

definition GET_AUTH_URL_TIMEOUT :: nat where
  "GET_AUTH_URL_TIMEOUT = 10000"

text \<open>
  A running promise is \<open>None\<close> when it never settles and \<open>Some (t, r)\<close> when it settles
  with \<open>r\<close> after \<open>t\<close> milliseconds. The timer rejects at \<open>timeout\<close> milliseconds; a
  promise that settles at that very instant counts as late.
\<close>

definition timeoutPromise :: "nat \<Rightarrow> (nat \<times> (rejection + 'a)) option \<Rightarrow> rejection + 'a" where
  "timeoutPromise timeout promise =
     (case promise of
        None \<Rightarrow> Inl (Rejected_Error ''promise timeout'')
      | Some (t, r) \<Rightarrow> if t < timeout then r else Inl (Rejected_Error ''promise timeout''))"

subsection \<open>getAuthUrl\<close>

text \<open>
  The promise chain inside \<^verbatim>\<open>timeoutPromise\<close>, once the response is there: the
  result, and the credentials after \<^verbatim>\<open>storage.set\<close>.
\<close>

definition getAuthUrl_chain ::
  "platform \<Rightarrow> scrobbler \<Rightarrow> request \<Rightarrow> credentials \<Rightarrow> (rejection + string) \<times> credentials" where
  "getAuthUrl_chain env this req data =
     (case fetch env req of
        NetworkFailure \<Rightarrow> (Inl (Rejected_Error ''fetch failed''), data)
      | Response code text \<Rightarrow>
          (case parseXML env text of
             None \<Rightarrow> (Inl (Rejected_Error ''Invalid XML''), data)
           | Some xml \<Rightarrow>
               if lfm_status xml \<noteq> Some ''ok''
               then (Inl Rejected_undefined, data\<lparr>token := JNull\<rparr>)
               else
                 let data' = data\<lparr>sessionID := JNull, token := JStr (token_text xml)\<rparr>;
                     url' = authUrl this @ ''?api_key='' @ apiKey this
                              @ ''&token='' @ ToString (token data')
                 in (Inr url', data')))"

text \<open>
  \<open>arrival\<close> is the time in milliseconds after which the response chain settles,
  \<open>None\<close> when the service never answers. The timer does not stop the chain: a late
  response still reaches the store.
\<close>

definition getAuthUrl :: "platform \<Rightarrow> scrobbler \<Rightarrow> nat option \<Rightarrow> credentials \<Rightarrow> string outcome" where
  "getAuthUrl env this arrival data =
     (let req = Request GET (apiUrl this @ ''?method=auth.gettoken&api_key='' @ apiKey this)
      in case arrival of
           None \<Rightarrow> (timeoutPromise GET_AUTH_URL_TIMEOUT None, data, [req])
         | Some t \<Rightarrow>
             let (r, data') = getAuthUrl_chain env this req data
             in (timeoutPromise GET_AUTH_URL_TIMEOUT (Some (t, r)), data', [req]))"

subsection \<open>tradeTokenForSession\<close>

definition trade_params :: "scrobbler \<Rightarrow> jsval \<Rightarrow> params" where
  "trade_params this tok =
     [(''method'', JStr ''auth.getsession''), (''api_key'', JStr (apiKey this)), (''token'', tok)]"

definition trade_request :: "platform \<Rightarrow> scrobbler \<Rightarrow> jsval \<Rightarrow> request" where
  "trade_request env this tok =
     (let params = trade_params this tok;
          apiSig = generateSign (MD5 env) (apiSecret this) params;
          queryStr = createQueryString params
      in Request GET (apiUrl this @ ''?'' @ queryStr @ ''&api_sig='' @ apiSig @ ''&format=json''))"

definition trade_failed :: "scrobbler \<Rightarrow> rejection" where
  "trade_failed this = Rejected_Error (label this @ '' auth.tradeTokenForSession failed'')"

definition tradeTokenForSession ::
  "platform \<Rightarrow> scrobbler \<Rightarrow> jsval \<Rightarrow> (rejection + session_field) \<times> request list" where
  "tradeTokenForSession env this tok =
     (let req = trade_request env this tok
      in (case fetch env req of
            NetworkFailure \<Rightarrow> Inl (trade_failed this)
          | Response code body \<Rightarrow>
              (case parseJSON env body of
                 None \<Rightarrow> Inl (trade_failed this)
               | Some JsonNull \<Rightarrow> Inl (trade_failed this)
               | Some (JsonData s) \<Rightarrow> Inr s),
          [req]))"

subsection \<open>getSession\<close>

text \<open>The \<^verbatim>\<open>catch\<close> branch: both session and token are now invalid.\<close>

definition invalidate :: "credentials \<Rightarrow> credentials" where
  "invalidate data = data\<lparr>token := JNull, sessionID := JNull, sessionName := JNull\<rparr>"

text \<open>
  A trade that resolves with \<^verbatim>\<open>undefined\<close> makes \<^verbatim>\<open>session.key\<close> throw inside the
  \<^verbatim>\<open>then\<close> callback, which the \<^verbatim>\<open>catch\<close> chained after it handles.
\<close>

definition getSession :: "platform \<Rightarrow> scrobbler \<Rightarrow> credentials \<Rightarrow> session outcome" where
  "getSession env this data =
     (let tok = or_else (token data) JNull
      in if tok \<noteq> JNull then
           (case tradeTokenForSession env this tok of
              (Inr (Session k n), reqs) \<Rightarrow>
                let data' = data\<lparr>token := JNull, sessionID := k, sessionName := n\<rparr>
                in (Inr \<lparr>s_sessionID = sessionID data', s_sessionName = sessionName data'\<rparr>,
                    data', reqs)
            | (Inr NoSession, reqs) \<Rightarrow>
                (Inl (Rejected_with AuthError), invalidate data, reqs)
            | (Inl err, reqs) \<Rightarrow>
                (Inl (Rejected_with AuthError), invalidate data, reqs))
         else if \<not> truthy (sessionID data) then (Inl (Rejected_with AuthError), data, [])
         else (Inr \<lparr>s_sessionID = sessionID data, s_sessionName = sessionName data\<rparr>, data, []))"

subsection \<open>doRequest\<close>

text \<open>The parameters as \<^verbatim>\<open>doRequest\<close> leaves them: the API key, then the signature.\<close>

definition request_params :: "platform \<Rightarrow> scrobbler \<Rightarrow> params \<Rightarrow> bool \<Rightarrow> params" where
  "request_params env this params signed =
     (let params1 = set_prop params ''api_key'' (JStr (apiKey this))
      in if signed
         then set_prop params1 ''api_sig'' (JStr (generateSign (MD5 env) (apiSecret this) params1))
         else params1)"

text \<open>The chain \<^verbatim>\<open>fetch(...).then(...).then(...)\<close> before its \<^verbatim>\<open>catch\<close>.\<close>

definition doRequest_chain :: "platform \<Rightarrow> request \<Rightarrow> rejection + xml_doc" where
  "doRequest_chain env req =
     (case fetch env req of
        NetworkFailure \<Rightarrow> Inl (Rejected_Error ''fetch failed'')
      | Response code text \<Rightarrow>
          (case parseXML env text of
             None \<Rightarrow> Inl (Rejected_Error ''Invalid XML'')
           | Some doc \<Rightarrow> Inr doc))"

definition doRequest_request :: "platform \<Rightarrow> scrobbler \<Rightarrow> http_method \<Rightarrow> params \<Rightarrow> bool \<Rightarrow> request" where
  "doRequest_request env this method params signed =
     (let queryStr = createQueryString (request_params env this params signed)
      in Request method (apiUrl this @ ''?'' @ queryStr))"

definition doRequest ::
  "platform \<Rightarrow> scrobbler \<Rightarrow> http_method \<Rightarrow> params \<Rightarrow> bool \<Rightarrow> (rejection + xml_doc) \<times> request list" where
  "doRequest env this method params signed =
     (let req = doRequest_request env this method params signed
      in (case doRequest_chain env req of
            Inl err \<Rightarrow> Inl (Rejected_with OtherError)
          | Inr doc \<Rightarrow> Inr doc,
          [req]))"

subsection \<open>scrobble\<close>

text \<open>
  Modelled from the spec: the song class is not among the sources. A song carries the
  parsed and the processed track and artist, the start timestamp of its metadata, and
  the album, which is what \<^verbatim>\<open>song.getAlbum()\<close> returns.
\<close>

record song =
  parsed_track :: jsval
  parsed_artist :: jsval
  processed_track :: jsval
  processed_artist :: jsval
  startTimestamp :: jsval
  album :: jsval

definition getAlbum :: "song \<Rightarrow> jsval" where
  "getAlbum sg = album sg"

definition scrobble_params :: "scrobbler \<Rightarrow> song \<Rightarrow> jsval \<Rightarrow> params" where
  "scrobble_params this sg sid =
     (let params =
            [(''method'', JStr ''track.scrobble''),
             (''timestamp[0]'', startTimestamp sg),
             (''track[0]'', or_else (processed_track sg) (parsed_track sg)),
             (''artist[0]'', or_else (processed_artist sg) (parsed_artist sg)),
             (''api_key'', JStr (apiKey this)),
             (''sk'', sid)]
      in if truthy (getAlbum sg) then set_prop params ''album[0]'' (getAlbum sg) else params)"

definition scrobble :: "platform \<Rightarrow> scrobbler \<Rightarrow> song \<Rightarrow> credentials \<Rightarrow> ServiceCallResult outcome" where
  "scrobble env this sg data =
     (case getSession env this data of
        (Inl err, data', reqs) \<Rightarrow> (Inl err, data', reqs)
      | (Inr s, data', reqs) \<Rightarrow>
          (case doRequest env this POST (scrobble_params this sg (s_sessionID s)) True of
             (Inl err, reqs') \<Rightarrow> (Inl err, data', reqs @ reqs')
           | (Inr doc, reqs') \<Rightarrow> (Inr (processResponse doc), data', reqs @ reqs')))"

subsection \<open>The credential store over time\<close>

text \<open>A value is set when it is neither \<^verbatim>\<open>null\<close> nor \<^verbatim>\<open>undefined\<close>.\<close>

definition is_set :: "jsval \<Rightarrow> bool" where
  "is_set v = (v \<noteq> JNull \<and> v \<noteq> JUndefined)"

definition cred_inv :: "credentials \<Rightarrow> bool" where
  "cred_inv data = (\<not> (is_set (token data) \<and> is_set (sessionID data)))"

text \<open>
  The stored credentials that calls of \<^verbatim>\<open>getAuthUrl\<close> and \<^verbatim>\<open>getSession\<close> can produce
  from the empty store, whatever the service answers.
\<close>

inductive reachable :: "credentials \<Rightarrow> bool" where
  reachable_empty: "reachable empty_credentials"
| reachable_getAuthUrl:
    "reachable data \<Longrightarrow> reachable (fst (snd (getAuthUrl env this arrival data)))"
| reachable_getSession:
    "reachable data \<Longrightarrow> reachable (fst (snd (getSession env this data)))"

text \<open>Calls of \<^verbatim>\<open>getSession\<close> one after the other, each with its own surroundings.\<close>

fun getSession_repeat :: "platform list \<Rightarrow> scrobbler \<Rightarrow> credentials \<Rightarrow> session outcome list" where
  "getSession_repeat [] this data = []"
| "getSession_repeat (env # envs) this data =
     (let out = getSession env this data in out # getSession_repeat envs this (fst (snd out)))"

subsection \<open>A scrobbler and a service to run the client on\<close>

definition demo_scrobbler :: scrobbler where
  "demo_scrobbler =
     \<lparr>label = ''LastFM'', apiUrl = ''https://ws.test/2.0/'', apiKey = ''KEY'',
      apiSecret = ''SECRET'', authUrl = ''https://www.test/auth/'', statusUrl = []\<rparr>"

definition xml_ok :: string where
  \<open>xml_ok = ''<lfm status="ok"><token>abc123</token></lfm>''\<close>

definition xml_ok_empty :: string where
  \<open>xml_ok_empty = ''<lfm status="ok"></lfm>''\<close>

definition xml_failed :: string where
  \<open>xml_failed = ''<lfm status="failed"><error code="4">no</error></lfm>''\<close>

definition json_session :: string where
  \<open>json_session = ''{"session":{"name":"u1","key":"sess1"}}''\<close>

definition json_session_blank :: string where
  \<open>json_session_blank = ''{"session":{"name":"","key":""}}''\<close>

definition json_error :: string where
  \<open>json_error = ''{"error":14,"message":"Unauthorized Token"}''\<close>

definition demo_parseXML :: "string \<Rightarrow> xml_doc option" where
  "demo_parseXML text =
     (if text = xml_ok then Some \<lparr>lfm_status = Some ''ok'', token_text = ''abc123''\<rparr>
      else if text = xml_failed then Some \<lparr>lfm_status = Some ''failed'', token_text = []\<rparr>
      else if text = xml_ok_empty then Some \<lparr>lfm_status = Some ''ok'', token_text = []\<rparr>
      else if text = [] then Some \<lparr>lfm_status = None, token_text = []\<rparr>
      else None)"

definition demo_parseJSON :: "string \<Rightarrow> json_data option" where
  "demo_parseJSON body =
     (if body = json_session then Some (JsonData (Session (JStr ''sess1'') (JStr ''u1'')))
      else if body = json_session_blank then Some (JsonData (Session (JStr []) (JStr [])))
      else if body = json_error then Some (JsonData NoSession)
      else if body = ''null'' then Some JsonNull
      else None)"

text \<open>A service that answers every request with \<open>reply\<close>; the digest is left readable.\<close>

definition demo_platform :: "fetch_outcome \<Rightarrow> platform" where
  "demo_platform reply =
     \<lparr>MD5 = (\<lambda>s. ''md5('' @ s @ '')''), parseXML = demo_parseXML, parseJSON = demo_parseJSON,
      fetch = (\<lambda>req. reply)\<rparr>"

section \<open>Query strings\<close>






lemma for_in_no_index:
  "list_all (\<lambda>k. \<not> is_array_index k) (map fst ps) \<Longrightarrow> for_in ps = ps"
  by (simp add: for_in_def list_all_iff)




section \<open>Signatures\<close>






section \<open>Response envelopes\<close>

text \<open>
  C5. \<^verbatim>\<open>processResponse\<close> returns \<open>Ok\<close> exactly when the status attribute of the
  envelope is the string \<open>ok\<close>, and \<open>OtherError\<close> whenever it is anything else or
  missing; it returns nothing else.
\<close>

theorem processResponse_status:
  "(processResponse doc = Ok) = (lfm_status doc = Some ''ok'') \<and>
   (processResponse doc = OtherError) = (lfm_status doc \<noteq> Some ''ok'') \<and>
   processResponse doc \<noteq> AuthError"
  by (simp add: processResponse_def)

section \<open>Sessions\<close>

lemma getSession_trade:
  "truthy (token data) \<Longrightarrow>
   getSession env this data =
     (case fst (tradeTokenForSession env this (token data)) of
        Inr (Session k n) \<Rightarrow>
          (Inr \<lparr>s_sessionID = k, s_sessionName = n\<rparr>,
           data\<lparr>token := JNull, sessionID := k, sessionName := n\<rparr>,
           [trade_request env this (token data)])
      | _ \<Rightarrow> (Inl (Rejected_with AuthError), invalidate data, [trade_request env this (token data)]))"
  by (cases "token data")
     (auto simp: getSession_def or_else_def tradeTokenForSession_def Let_def
           split: fetch_outcome.splits option.splits json_data.splits session_field.splits sum.splits)

lemma getSession_no_trade:
  "\<not> truthy (token data) \<Longrightarrow>
   getSession env this data =
     (if \<not> truthy (sessionID data) then (Inl (Rejected_with AuthError), data, [])
      else (Inr \<lparr>s_sessionID = sessionID data, s_sessionName = sessionName data\<rparr>, data, []))"
  by (simp add: getSession_def or_else_def)

lemma demo_fetch [simp]: "fetch (demo_platform reply) req = reply"
  by (simp add: demo_platform_def)

lemma demo_parse [simp]:
  "parseXML (demo_platform reply) xml_ok = Some \<lparr>lfm_status = Some ''ok'', token_text = ''abc123''\<rparr>"
  "parseXML (demo_platform reply) xml_failed = Some \<lparr>lfm_status = Some ''failed'', token_text = []\<rparr>"
  "parseXML (demo_platform reply) ''502 Bad Gateway'' = None"
  "parseXML (demo_platform reply) xml_ok_empty = Some \<lparr>lfm_status = Some ''ok'', token_text = []\<rparr>"
  "parseXML (demo_platform reply) [] = Some \<lparr>lfm_status = None, token_text = []\<rparr>"
  by (simp_all add: demo_platform_def demo_parseXML_def xml_ok_def xml_failed_def xml_ok_empty_def)

lemma demo_trade_ok:
  "fst (tradeTokenForSession (demo_platform (Response 200 json_session)) this tok)
     = Inr (Session (JStr ''sess1'') (JStr ''u1''))"
  by (simp add: tradeTokenForSession_def demo_platform_def demo_parseJSON_def Let_def)

lemma demo_trade_refused:
  "fst (tradeTokenForSession (demo_platform (Response 403 json_error)) this tok) = Inr NoSession"
  by (simp add: tradeTokenForSession_def demo_platform_def demo_parseJSON_def Let_def
        json_session_def json_error_def json_session_blank_def)

text \<open>
  A stored token that is the empty string is not \<^verbatim>\<open>null\<close>, yet \<^verbatim>\<open>data.token || null\<close>
  reads it as no token: \<^verbatim>\<open>getSession\<close> trades nothing and, with no session stored,
  rejects at once. \<^verbatim>\<open>getAuthUrl\<close> stores such a token when an \<open>ok\<close> response carries no
  token element.
\<close>

theorem getSession_empty_token_counterexample:
  "reachable \<lparr>token = JStr [], sessionID = JNull, sessionName = JUndefined\<rparr> \<and>
   token \<lparr>token = JStr [], sessionID = JNull, sessionName = JUndefined\<rparr> \<noteq> JNull \<and>
   getSession (demo_platform (Response 200 json_session)) demo_scrobbler
       \<lparr>token = JStr [], sessionID = JNull, sessionName = JUndefined\<rparr> =
     (Inl (Rejected_with AuthError),
      \<lparr>token = JStr [], sessionID = JNull, sessionName = JUndefined\<rparr>, [])"
proof -
  have "fst (snd (getAuthUrl (demo_platform (Response 200 xml_ok_empty)) demo_scrobbler (Some 120)
          empty_credentials))
        = \<lparr>token = JStr [], sessionID = JNull, sessionName = JUndefined\<rparr>"
    by (simp add: getAuthUrl_def getAuthUrl_chain_def Let_def empty_credentials_def)
  with reachable_getAuthUrl [OF reachable_empty,
      of "demo_platform (Response 200 xml_ok_empty)" demo_scrobbler "Some 120"]
  have "reachable \<lparr>token = JStr [], sessionID = JNull, sessionName = JUndefined\<rparr>"
    by simp
  then show ?thesis
    by (simp add: getSession_def or_else_def)
qed

text \<open>
  C2, amended. With a stored token that is truthy (neither \<^verbatim>\<open>null\<close> nor the empty
  string), \<^verbatim>\<open>getSession\<close> sends exactly one trade request. When the trade yields a
  session, the store afterwards has no token and that session's key and name, and the
  promise resolves with that session; when it does not, token, session id and session
  name are all \<^verbatim>\<open>null\<close> afterwards and the promise rejects with \<open>AuthError\<close>. With no
  token and no session id, \<^verbatim>\<open>getSession\<close> rejects with \<open>AuthError\<close>, sends nothing and
  leaves the store as it is.
\<close>

theorem getSession_token_trade:
  "(truthy (token data) \<and> fst (tradeTokenForSession env this (token data)) = Inr (Session k n) \<longrightarrow>
      getSession env this data =
        (Inr \<lparr>s_sessionID = k, s_sessionName = n\<rparr>,
         data\<lparr>token := JNull, sessionID := k, sessionName := n\<rparr>,
         [trade_request env this (token data)])) \<and>
   (truthy (token data) \<and>
    (\<forall>k' n'. fst (tradeTokenForSession env this (token data)) \<noteq> Inr (Session k' n')) \<longrightarrow>
      getSession env this data =
        (Inl (Rejected_with AuthError),
         data\<lparr>token := JNull, sessionID := JNull, sessionName := JNull\<rparr>,
         [trade_request env this (token data)])) \<and>
   (\<not> truthy (token data) \<and> \<not> truthy (sessionID data) \<longrightarrow>
      getSession env this data = (Inl (Rejected_with AuthError), data, []))"
  by (auto simp: getSession_trade getSession_no_trade invalidate_def
           split: sum.splits session_field.splits)

theorem getSession_token_trade_witness:
  "truthy (token \<lparr>token = JStr ''abc123'', sessionID = JNull, sessionName = JNull\<rparr>) \<and>
   getSession (demo_platform (Response 200 json_session)) demo_scrobbler
       \<lparr>token = JStr ''abc123'', sessionID = JNull, sessionName = JNull\<rparr> =
     (Inr \<lparr>s_sessionID = JStr ''sess1'', s_sessionName = JStr ''u1''\<rparr>,
      \<lparr>token = JNull, sessionID = JStr ''sess1'', sessionName = JStr ''u1''\<rparr>,
      [trade_request (demo_platform (Response 200 json_session)) demo_scrobbler (JStr ''abc123'')]) \<and>
   getSession (demo_platform (Response 403 json_error)) demo_scrobbler
       \<lparr>token = JStr ''abc123'', sessionID = JNull, sessionName = JNull\<rparr> =
     (Inl (Rejected_with AuthError),
      \<lparr>token = JNull, sessionID = JNull, sessionName = JNull\<rparr>,
      [trade_request (demo_platform (Response 403 json_error)) demo_scrobbler (JStr ''abc123'')]) \<and>
   \<not> truthy (token empty_credentials) \<and> \<not> truthy (sessionID empty_credentials) \<and>
   getSession (demo_platform (Response 200 json_session)) demo_scrobbler empty_credentials =
     (Inl (Rejected_with AuthError), empty_credentials, [])"
  using
    getSession_token_trade [of "\<lparr>token = JStr ''abc123'', sessionID = JNull, sessionName = JNull\<rparr>"
      "demo_platform (Response 200 json_session)" demo_scrobbler "JStr ''sess1''" "JStr ''u1''"]
    getSession_token_trade [of "\<lparr>token = JStr ''abc123'', sessionID = JNull, sessionName = JNull\<rparr>"
      "demo_platform (Response 403 json_error)" demo_scrobbler]
    getSession_token_trade [of empty_credentials "demo_platform (Response 200 json_session)" demo_scrobbler]
  by (simp add: demo_trade_ok demo_trade_refused empty_credentials_def)

lemma demo_trade_blank:
  "fst (tradeTokenForSession (demo_platform (Response 200 json_session_blank)) this tok)
     = Inr (Session (JStr []) (JStr []))"
  by (simp add: tradeTokenForSession_def demo_platform_def demo_parseJSON_def Let_def
        json_session_def json_error_def json_session_blank_def)

text \<open>
  A stored session id that is the empty string is set, yet \<^verbatim>\<open>!data.sessionID\<close> reads
  it as no session: \<^verbatim>\<open>getSession\<close> rejects with \<open>AuthError\<close>. The store holds such an id
  after a trade whose session has an empty key.
\<close>

theorem getSession_empty_session_counterexample:
  "reachable \<lparr>token = JNull, sessionID = JStr [], sessionName = JStr []\<rparr> \<and>
   is_set (sessionID \<lparr>token = JNull, sessionID = JStr [], sessionName = JStr []\<rparr>) \<and>
   token \<lparr>token = JNull, sessionID = JStr [], sessionName = JStr []\<rparr> = JNull \<and>
   getSession (demo_platform (Response 200 json_session)) demo_scrobbler
       \<lparr>token = JNull, sessionID = JStr [], sessionName = JStr []\<rparr> =
     (Inl (Rejected_with AuthError),
      \<lparr>token = JNull, sessionID = JStr [], sessionName = JStr []\<rparr>, [])"
proof -
  have "fst (snd (getAuthUrl (demo_platform (Response 200 xml_ok)) demo_scrobbler (Some 120)
          empty_credentials))
        = \<lparr>token = JStr ''abc123'', sessionID = JNull, sessionName = JUndefined\<rparr>"
    by (simp add: getAuthUrl_def getAuthUrl_chain_def Let_def empty_credentials_def)
  with reachable_getAuthUrl [OF reachable_empty,
      of "demo_platform (Response 200 xml_ok)" demo_scrobbler "Some 120"]
  have r: "reachable \<lparr>token = JStr ''abc123'', sessionID = JNull, sessionName = JUndefined\<rparr>"
    by simp
  have "fst (snd (getSession (demo_platform (Response 200 json_session_blank)) demo_scrobbler
          \<lparr>token = JStr ''abc123'', sessionID = JNull, sessionName = JUndefined\<rparr>))
        = \<lparr>token = JNull, sessionID = JStr [], sessionName = JStr []\<rparr>"
    by (simp add: getSession_trade demo_trade_blank)
  with reachable_getSession [OF r,
      of "demo_platform (Response 200 json_session_blank)" demo_scrobbler]
  have "reachable \<lparr>token = JNull, sessionID = JStr [], sessionName = JStr []\<rparr>"
    by simp
  then show ?thesis
    by (simp add: getSession_def or_else_def is_set_def)
qed

text \<open>
  C3, amended. With a truthy session id stored (one that \<^verbatim>\<open>!data.sessionID\<close> does not
  take for missing: neither \<^verbatim>\<open>null\<close> nor the empty string) and no token,
  \<^verbatim>\<open>getSession\<close> sends nothing and resolves with the stored session id and name; any
  number of calls in a row resolve with that same session and leave the store
  unchanged.
\<close>

theorem getSession_cached_idempotent:
  "\<not> truthy (token data) \<Longrightarrow> truthy (sessionID data) \<Longrightarrow>
   getSession env this data =
     (Inr \<lparr>s_sessionID = sessionID data, s_sessionName = sessionName data\<rparr>, data, []) \<and>
   getSession_repeat envs this data =
     replicate (length envs)
       (Inr \<lparr>s_sessionID = sessionID data, s_sessionName = sessionName data\<rparr>, data, [])"
  by (induction envs) (simp_all add: getSession_no_trade Let_def)

theorem getSession_cached_idempotent_witness:
  "\<not> truthy (token \<lparr>token = JNull, sessionID = JStr ''sess1'', sessionName = JStr ''u1''\<rparr>) \<and>
   truthy (sessionID \<lparr>token = JNull, sessionID = JStr ''sess1'', sessionName = JStr ''u1''\<rparr>) \<and>
   getSession_repeat
       [demo_platform NetworkFailure, demo_platform (Response 200 json_session)] demo_scrobbler
       \<lparr>token = JNull, sessionID = JStr ''sess1'', sessionName = JStr ''u1''\<rparr> =
     [(Inr \<lparr>s_sessionID = JStr ''sess1'', s_sessionName = JStr ''u1''\<rparr>,
       \<lparr>token = JNull, sessionID = JStr ''sess1'', sessionName = JStr ''u1''\<rparr>, []),
      (Inr \<lparr>s_sessionID = JStr ''sess1'', s_sessionName = JStr ''u1''\<rparr>,
       \<lparr>token = JNull, sessionID = JStr ''sess1'', sessionName = JStr ''u1''\<rparr>, [])]"
  using getSession_cached_idempotent
    [of "\<lparr>token = JNull, sessionID = JStr ''sess1'', sessionName = JStr ''u1''\<rparr>"
      "demo_platform NetworkFailure" demo_scrobbler
      "[demo_platform NetworkFailure, demo_platform (Response 200 json_session)]"]
  by (simp del: getSession_repeat.simps)

text \<open>
  With the empty string as token and a session id stored, both fields are not
  \<^verbatim>\<open>null\<close>, and \<^verbatim>\<open>getSession\<close> resolves with the stored session without any request.
\<close>

theorem getSession_empty_token_cached_counterexample:
  "token \<lparr>token = JStr [], sessionID = JStr ''sess0'', sessionName = JStr ''u0''\<rparr> \<noteq> JNull \<and>
   sessionID \<lparr>token = JStr [], sessionID = JStr ''sess0'', sessionName = JStr ''u0''\<rparr> \<noteq> JNull \<and>
   getSession (demo_platform (Response 200 json_session)) demo_scrobbler
       \<lparr>token = JStr [], sessionID = JStr ''sess0'', sessionName = JStr ''u0''\<rparr> =
     (Inr \<lparr>s_sessionID = JStr ''sess0'', s_sessionName = JStr ''u0''\<rparr>,
      \<lparr>token = JStr [], sessionID = JStr ''sess0'', sessionName = JStr ''u0''\<rparr>, [])"
  by (simp add: getSession_def or_else_def)

text \<open>
  C10, amended. With a truthy token and a session id both stored, \<^verbatim>\<open>getSession\<close> does
  not answer from the store: it sends the trade request; a traded session overwrites
  the stored id and name and the token is cleared, and a failed trade clears the stored
  session together with the token and rejects with \<open>AuthError\<close>.
\<close>

theorem getSession_token_beats_session:
  "(truthy (token data) \<and> is_set (sessionID data) \<and>
    fst (tradeTokenForSession env this (token data)) = Inr (Session k n) \<longrightarrow>
      snd (snd (getSession env this data)) = [trade_request env this (token data)] \<and>
      fst (getSession env this data) = Inr \<lparr>s_sessionID = k, s_sessionName = n\<rparr> \<and>
      sessionID (fst (snd (getSession env this data))) = k \<and>
      sessionName (fst (snd (getSession env this data))) = n \<and>
      token (fst (snd (getSession env this data))) = JNull) \<and>
   (truthy (token data) \<and> is_set (sessionID data) \<and>
    (\<forall>k' n'. fst (tradeTokenForSession env this (token data)) \<noteq> Inr (Session k' n')) \<longrightarrow>
      snd (snd (getSession env this data)) = [trade_request env this (token data)] \<and>
      fst (getSession env this data) = Inl (Rejected_with AuthError) \<and>
      sessionID (fst (snd (getSession env this data))) = JNull \<and>
      sessionName (fst (snd (getSession env this data))) = JNull \<and>
      token (fst (snd (getSession env this data))) = JNull)"
  by (auto simp: getSession_trade invalidate_def split: sum.splits session_field.splits)

theorem getSession_token_beats_session_witness:
  "truthy (token \<lparr>token = JStr ''abc123'', sessionID = JStr ''old'', sessionName = JStr ''u0''\<rparr>) \<and>
   is_set (sessionID \<lparr>token = JStr ''abc123'', sessionID = JStr ''old'', sessionName = JStr ''u0''\<rparr>) \<and>
   fst (getSession (demo_platform (Response 200 json_session)) demo_scrobbler
          \<lparr>token = JStr ''abc123'', sessionID = JStr ''old'', sessionName = JStr ''u0''\<rparr>)
     = Inr \<lparr>s_sessionID = JStr ''sess1'', s_sessionName = JStr ''u1''\<rparr> \<and>
   sessionID (fst (snd (getSession (demo_platform (Response 200 json_session)) demo_scrobbler
          \<lparr>token = JStr ''abc123'', sessionID = JStr ''old'', sessionName = JStr ''u0''\<rparr>)))
     = JStr ''sess1'' \<and>
   fst (getSession (demo_platform (Response 403 json_error)) demo_scrobbler
          \<lparr>token = JStr ''abc123'', sessionID = JStr ''old'', sessionName = JStr ''u0''\<rparr>)
     = Inl (Rejected_with AuthError) \<and>
   sessionID (fst (snd (getSession (demo_platform (Response 403 json_error)) demo_scrobbler
          \<lparr>token = JStr ''abc123'', sessionID = JStr ''old'', sessionName = JStr ''u0''\<rparr>)))
     = JNull"
  using
    getSession_token_beats_session
      [of "\<lparr>token = JStr ''abc123'', sessionID = JStr ''old'', sessionName = JStr ''u0''\<rparr>"
        "demo_platform (Response 200 json_session)" demo_scrobbler "JStr ''sess1''" "JStr ''u1''"]
    getSession_token_beats_session
      [of "\<lparr>token = JStr ''abc123'', sessionID = JStr ''old'', sessionName = JStr ''u0''\<rparr>"
        "demo_platform (Response 403 json_error)" demo_scrobbler]
  by (simp add: demo_trade_ok demo_trade_refused is_set_def)

section \<open>Requests\<close>

lemma doRequest_fst:
  "fst (doRequest env this method params signed) =
     (case fetch env (doRequest_request env this method params signed) of
        NetworkFailure \<Rightarrow> Inl (Rejected_with OtherError)
      | Response code text \<Rightarrow>
          (case parseXML env text of
             None \<Rightarrow> Inl (Rejected_with OtherError)
           | Some doc \<Rightarrow> Inr doc))"
  by (simp add: doRequest_def doRequest_chain_def Let_def
           split: fetch_outcome.splits option.splits)

text \<open>
  \<^verbatim>\<open>fetch\<close> resolves on every HTTP status and \<^verbatim>\<open>doRequest\<close> never looks at the code: a
  403 response whose body is well-formed XML makes \<^verbatim>\<open>doRequest\<close> resolve with the
  parsed document.
\<close>

theorem doRequest_http_error_counterexample:
  "fetch (demo_platform (Response 403 xml_failed))
     (doRequest_request (demo_platform (Response 403 xml_failed)) demo_scrobbler POST [] True)
     = Response 403 xml_failed \<and>
   fst (doRequest (demo_platform (Response 403 xml_failed)) demo_scrobbler POST [] True)
     = Inr \<lparr>lfm_status = Some ''failed'', token_text = []\<rparr>"
  by (simp add: doRequest_fst)

text \<open>
  C6, amended. A network failure and a body on which the XML parser throws make
  \<^verbatim>\<open>doRequest\<close> reject with \<open>OtherError\<close>, and \<^verbatim>\<open>doRequest\<close> rejects with nothing
  else. The status code of a response is not a failure by itself: whenever the parser
  returns, as it also does on an empty body, \<^verbatim>\<open>doRequest\<close> resolves with what it
  returned.
\<close>

theorem doRequest_rejects_with_OtherError:
  "(fetch env (doRequest_request env this method params signed) = NetworkFailure \<longrightarrow>
      fst (doRequest env this method params signed) = Inl (Rejected_with OtherError)) \<and>
   (fetch env (doRequest_request env this method params signed) = Response code text \<and>
    parseXML env text = None \<longrightarrow>
      fst (doRequest env this method params signed) = Inl (Rejected_with OtherError)) \<and>
   (fetch env (doRequest_request env this method params signed) = Response code text \<and>
    parseXML env text = Some doc \<longrightarrow>
      fst (doRequest env this method params signed) = Inr doc) \<and>
   (\<forall>err. fst (doRequest env this method params signed) = Inl err \<longrightarrow>
      err = Rejected_with OtherError)"
  by (auto simp: doRequest_fst split: fetch_outcome.splits option.splits)

theorem doRequest_rejects_with_OtherError_witness:
  "fetch (demo_platform NetworkFailure)
     (doRequest_request (demo_platform NetworkFailure) demo_scrobbler POST [] True) = NetworkFailure \<and>
   fst (doRequest (demo_platform NetworkFailure) demo_scrobbler POST [] True)
     = Inl (Rejected_with OtherError) \<and>
   parseXML (demo_platform (Response 502 ''502 Bad Gateway'')) ''502 Bad Gateway'' = None \<and>
   fst (doRequest (demo_platform (Response 502 ''502 Bad Gateway'')) demo_scrobbler POST [] True)
     = Inl (Rejected_with OtherError) \<and>
   fst (doRequest (demo_platform (Response 200 xml_ok)) demo_scrobbler POST [] True)
     = Inr \<lparr>lfm_status = Some ''ok'', token_text = ''abc123''\<rparr> \<and>
   parseXML (demo_platform (Response 200 [])) [] = Some \<lparr>lfm_status = None, token_text = []\<rparr> \<and>
   fst (doRequest (demo_platform (Response 200 [])) demo_scrobbler POST [] True)
     = Inr \<lparr>lfm_status = None, token_text = []\<rparr>"
proof -
  have f1: "fetch (demo_platform NetworkFailure)
      (doRequest_request (demo_platform NetworkFailure) demo_scrobbler POST [] True) = NetworkFailure"
    by (rule demo_fetch)
  have f2: "fetch (demo_platform (Response 502 ''502 Bad Gateway''))
      (doRequest_request (demo_platform (Response 502 ''502 Bad Gateway'')) demo_scrobbler POST [] True)
      = Response 502 ''502 Bad Gateway''"
    by (rule demo_fetch)
  have p2: "parseXML (demo_platform (Response 502 ''502 Bad Gateway'')) ''502 Bad Gateway'' = None"
    by (rule demo_parse(3))
  have f3: "fetch (demo_platform (Response 200 xml_ok))
      (doRequest_request (demo_platform (Response 200 xml_ok)) demo_scrobbler POST [] True)
      = Response 200 xml_ok"
    by (rule demo_fetch)
  have p3: "parseXML (demo_platform (Response 200 xml_ok)) xml_ok
      = Some \<lparr>lfm_status = Some ''ok'', token_text = ''abc123''\<rparr>"
    by (rule demo_parse(1))
  have f4: "fetch (demo_platform (Response 200 []))
      (doRequest_request (demo_platform (Response 200 [])) demo_scrobbler POST [] True)
      = Response 200 []"
    by (rule demo_fetch)
  have p4: "parseXML (demo_platform (Response 200 [])) [] = Some \<lparr>lfm_status = None, token_text = []\<rparr>"
    by (rule demo_parse(5))
  note r1 = doRequest_rejects_with_OtherError
    [of "demo_platform NetworkFailure" demo_scrobbler POST "[]" True,
     THEN conjunct1, THEN mp, OF f1]
  note r2 = doRequest_rejects_with_OtherError
    [of "demo_platform (Response 502 ''502 Bad Gateway'')" demo_scrobbler POST "[]" True
        502 "''502 Bad Gateway''",
     THEN conjunct2, THEN conjunct1, THEN mp, OF conjI [OF f2 p2]]
  note r3 = doRequest_rejects_with_OtherError
    [of "demo_platform (Response 200 xml_ok)" demo_scrobbler POST "[]" True 200 xml_ok
        "\<lparr>lfm_status = Some ''ok'', token_text = ''abc123''\<rparr>",
     THEN conjunct2, THEN conjunct2, THEN conjunct1, THEN mp, OF conjI [OF f3 p3]]
  note r4 = doRequest_rejects_with_OtherError
    [of "demo_platform (Response 200 [])" demo_scrobbler POST "[]" True 200 "[]"
        "\<lparr>lfm_status = None, token_text = []\<rparr>",
     THEN conjunct2, THEN conjunct2, THEN conjunct1, THEN mp, OF conjI [OF f4 p4]]
  show ?thesis
    by (intro conjI f1 r1 p2 r2 r3 p4 r4)
qed

text \<open>
  C7. When the token response arrives before the timer of 10000 milliseconds and its
  status is \<open>ok\<close>, \<^verbatim>\<open>getAuthUrl\<close> stores the parsed token, sets the session id to
  \<^verbatim>\<open>null\<close> and resolves with the authorization URL that ends in \<open>&token=\<close> and that
  token; when the status is anything else, it stores \<^verbatim>\<open>null\<close> as token and rejects.
  When the response is not there after 10000 milliseconds, or never comes, the promise
  rejects with the timeout error.
\<close>

theorem getAuthUrl_outcomes:
  "(t < GET_AUTH_URL_TIMEOUT \<and>
    fetch env (Request GET (apiUrl this @ ''?method=auth.gettoken&api_key='' @ apiKey this))
      = Response code text \<and>
    parseXML env text = Some xml \<and> lfm_status xml = Some ''ok'' \<longrightarrow>
      getAuthUrl env this (Some t) data =
        (Inr (authUrl this @ ''?api_key='' @ apiKey this @ ''&token='' @ token_text xml),
         data\<lparr>sessionID := JNull, token := JStr (token_text xml)\<rparr>,
         [Request GET (apiUrl this @ ''?method=auth.gettoken&api_key='' @ apiKey this)])) \<and>
   (t < GET_AUTH_URL_TIMEOUT \<and>
    fetch env (Request GET (apiUrl this @ ''?method=auth.gettoken&api_key='' @ apiKey this))
      = Response code text \<and>
    parseXML env text = Some xml \<and> lfm_status xml \<noteq> Some ''ok'' \<longrightarrow>
      getAuthUrl env this (Some t) data =
        (Inl Rejected_undefined, data\<lparr>token := JNull\<rparr>,
         [Request GET (apiUrl this @ ''?method=auth.gettoken&api_key='' @ apiKey this)])) \<and>
   (GET_AUTH_URL_TIMEOUT \<le> t \<longrightarrow>
      fst (getAuthUrl env this (Some t) data) = Inl (Rejected_Error ''promise timeout'')) \<and>
   fst (getAuthUrl env this None data) = Inl (Rejected_Error ''promise timeout'') \<and>
   GET_AUTH_URL_TIMEOUT = 10000"
  by (auto simp: getAuthUrl_def getAuthUrl_chain_def timeoutPromise_def Let_def GET_AUTH_URL_TIMEOUT_def
           split: prod.splits)

theorem getAuthUrl_outcomes_witness:
  "(120::nat) < GET_AUTH_URL_TIMEOUT \<and>
   getAuthUrl (demo_platform (Response 200 xml_ok)) demo_scrobbler (Some 120) empty_credentials =
     (Inr ''https://www.test/auth/?api_key=KEY&token=abc123'',
      \<lparr>token = JStr ''abc123'', sessionID = JNull, sessionName = JUndefined\<rparr>,
      [Request GET ''https://ws.test/2.0/?method=auth.gettoken&api_key=KEY'']) \<and>
   getAuthUrl (demo_platform (Response 200 xml_failed)) demo_scrobbler (Some 120)
       \<lparr>token = JStr ''stale'', sessionID = JNull, sessionName = JNull\<rparr> =
     (Inl Rejected_undefined,
      \<lparr>token = JNull, sessionID = JNull, sessionName = JNull\<rparr>,
      [Request GET ''https://ws.test/2.0/?method=auth.gettoken&api_key=KEY'']) \<and>
   GET_AUTH_URL_TIMEOUT \<le> 10000 \<and>
   fst (getAuthUrl (demo_platform (Response 200 xml_ok)) demo_scrobbler (Some 10000) empty_credentials)
     = Inl (Rejected_Error ''promise timeout'')"
proof -
  have t: "(120::nat) < GET_AUTH_URL_TIMEOUT" and t': "GET_AUTH_URL_TIMEOUT \<le> 10000"
    by (simp_all add: GET_AUTH_URL_TIMEOUT_def)
  have s1: "lfm_status \<lparr>lfm_status = Some ''ok'', token_text = ''abc123''\<rparr> = Some ''ok''"
    by simp
  have s2: "lfm_status \<lparr>lfm_status = Some ''failed'', token_text = []\<rparr> \<noteq> Some ''ok''"
    by simp
  from getAuthUrl_outcomes [of 120 "demo_platform (Response 200 xml_ok)" demo_scrobbler 200 xml_ok
      "\<lparr>lfm_status = Some ''ok'', token_text = ''abc123''\<rparr>" empty_credentials]
    t s1 demo_fetch demo_parse(1)
  have r1: "getAuthUrl (demo_platform (Response 200 xml_ok)) demo_scrobbler (Some 120) empty_credentials =
        (Inr (authUrl demo_scrobbler @ ''?api_key='' @ apiKey demo_scrobbler @ ''&token='' @
              token_text \<lparr>lfm_status = Some ''ok'', token_text = ''abc123''\<rparr>),
         empty_credentials\<lparr>sessionID := JNull,
           token := JStr (token_text \<lparr>lfm_status = Some ''ok'', token_text = ''abc123''\<rparr>)\<rparr>,
         [Request GET (apiUrl demo_scrobbler @ ''?method=auth.gettoken&api_key='' @ apiKey demo_scrobbler)])"
    by blast
  from getAuthUrl_outcomes [of 120 "demo_platform (Response 200 xml_failed)" demo_scrobbler 200 xml_failed
      "\<lparr>lfm_status = Some ''failed'', token_text = []\<rparr>"
      "\<lparr>token = JStr ''stale'', sessionID = JNull, sessionName = JNull\<rparr>"]
    t s2 demo_fetch demo_parse(2)
  have r2: "getAuthUrl (demo_platform (Response 200 xml_failed)) demo_scrobbler (Some 120)
          \<lparr>token = JStr ''stale'', sessionID = JNull, sessionName = JNull\<rparr> =
        (Inl Rejected_undefined,
         \<lparr>token = JStr ''stale'', sessionID = JNull, sessionName = JNull\<rparr>\<lparr>token := JNull\<rparr>,
         [Request GET (apiUrl demo_scrobbler @ ''?method=auth.gettoken&api_key='' @ apiKey demo_scrobbler)])"
    by blast
  from getAuthUrl_outcomes [of 10000 "demo_platform (Response 200 xml_ok)" demo_scrobbler 200 xml_ok
      "\<lparr>lfm_status = Some ''ok'', token_text = ''abc123''\<rparr>" empty_credentials] t'
  have r3: "fst (getAuthUrl (demo_platform (Response 200 xml_ok)) demo_scrobbler (Some 10000)
                   empty_credentials) = Inl (Rejected_Error ''promise timeout'')"
    by blast
  from r1 r2 r3 t t' show ?thesis
    by (simp add: demo_scrobbler_def empty_credentials_def)
qed

lemma scrobble_requests:
  "getSession env this data = (Inr s, data', reqs) \<Longrightarrow>
   snd (snd (scrobble env this sg data)) =
     reqs @ [doRequest_request env this POST (scrobble_params this sg (s_sessionID s)) True]"
  by (simp add: scrobble_def doRequest_def Let_def split: sum.splits prod.splits)

lemma get_prop_Cons:
  "get_prop [] y = JUndefined"
  "get_prop ((k, v) # ps) y = (if y = k then v else get_prop ps y)"
  by (simp_all add: get_prop_def)

lemma map_fst_set_prop_old:
  "x \<in> set (map fst ps) \<Longrightarrow> map fst (set_prop ps x v) = map fst ps"
  by (induction ps x v rule: set_prop.induct) auto

lemma map_fst_set_prop_new:
  "x \<notin> set (map fst ps) \<Longrightarrow> map fst (set_prop ps x v) = map fst ps @ [x]"
  by (induction ps x v rule: set_prop.induct) auto

lemma get_prop_set_prop:
  "get_prop (set_prop ps x v) y = (if y = x then v else get_prop ps y)"
  by (induction ps x v rule: set_prop.induct) (auto simp: get_prop_def)

lemma keys_scrobble_params:
  "map fst (scrobble_params this sg sid) =
     [''method'', ''timestamp[0]'', ''track[0]'', ''artist[0]'', ''api_key'', ''sk''] @
     (if truthy (getAlbum sg) then [''album[0]''] else [])"
  by (simp add: scrobble_params_def)

lemma get_prop_scrobble_params:
  "get_prop (scrobble_params this sg sid) ''method'' = JStr ''track.scrobble''"
  "get_prop (scrobble_params this sg sid) ''track[0]'' = or_else (processed_track sg) (parsed_track sg)"
  "get_prop (scrobble_params this sg sid) ''artist[0]'' = or_else (processed_artist sg) (parsed_artist sg)"
  "get_prop (scrobble_params this sg sid) ''timestamp[0]'' = startTimestamp sg"
  "get_prop (scrobble_params this sg sid) ''sk'' = sid"
  "truthy (getAlbum sg) \<Longrightarrow> get_prop (scrobble_params this sg sid) ''album[0]'' = getAlbum sg"
  by (simp_all add: scrobble_params_def Let_def get_prop_set_prop get_prop_Cons)

lemma keys_request_params:
  "map fst (request_params env this (scrobble_params this sg sid) True) =
     [''method'', ''timestamp[0]'', ''track[0]'', ''artist[0]'', ''api_key'', ''sk''] @
     (if truthy (getAlbum sg) then [''album[0]''] else []) @ [''api_sig'']"
proof -
  have "''api_key'' \<in> set (map fst (scrobble_params this sg sid))"
    unfolding keys_scrobble_params by simp
  then have k1: "map fst (set_prop (scrobble_params this sg sid) ''api_key'' (JStr (apiKey this)))
      = map fst (scrobble_params this sg sid)"
    by (rule map_fst_set_prop_old)
  have "''api_sig'' \<notin> set (map fst
      (set_prop (scrobble_params this sg sid) ''api_key'' (JStr (apiKey this))))"
    unfolding k1 keys_scrobble_params by simp
  then have "map fst (set_prop
      (set_prop (scrobble_params this sg sid) ''api_key'' (JStr (apiKey this))) ''api_sig'' v)
      = map fst (set_prop (scrobble_params this sg sid) ''api_key'' (JStr (apiKey this)))
          @ [''api_sig'']" for v
    by (rule map_fst_set_prop_new)
  then show ?thesis
    by (simp add: request_params_def Let_def k1 keys_scrobble_params)
qed

lemma own_keys_request_params:
  "own_keys (request_params env this (scrobble_params this sg sid) True) =
     [''method'', ''timestamp[0]'', ''track[0]'', ''artist[0]'', ''api_key'', ''sk''] @
     (if truthy (getAlbum sg) then [''album[0]''] else []) @ [''api_sig'']"
proof -
  have "list_all (\<lambda>k. \<not> is_array_index k)
          (map fst (request_params env this (scrobble_params this sg sid) True))"
    unfolding keys_request_params by (simp add: is_array_index_def is_digit_def)
  then show ?thesis
    by (simp add: own_keys_def for_in_no_index keys_request_params)
qed

lemma get_prop_request_params:
  "y \<noteq> ''api_key'' \<Longrightarrow> y \<noteq> ''api_sig'' \<Longrightarrow>
   get_prop (request_params env this ps True) y = get_prop ps y"
  by (simp add: request_params_def Let_def get_prop_set_prop)

text \<open>
  C8. Once \<^verbatim>\<open>getSession\<close> has resolved with a session, \<^verbatim>\<open>scrobble\<close> sends one POST
  request whose query string is made of the signed parameters: \<open>method\<close> is
  \<open>track.scrobble\<close>, the track, artist and timestamp go under \<open>track[0]\<close>,
  \<open>artist[0]\<close> and \<open>timestamp[0]\<close>, \<open>sk\<close> is the session id, the signature comes
  last, and \<open>album[0]\<close> is there exactly when the song has an album.
\<close>

theorem scrobble_request:
  "fst (getSession env this data) = Inr s \<Longrightarrow>
   snd (snd (scrobble env this sg data)) =
     snd (snd (getSession env this data)) @
     [Request POST (apiUrl this @ ''?'' @
        createQueryString (request_params env this (scrobble_params this sg (s_sessionID s)) True))] \<and>
   own_keys (request_params env this (scrobble_params this sg (s_sessionID s)) True) =
     [''method'', ''timestamp[0]'', ''track[0]'', ''artist[0]'', ''api_key'', ''sk''] @
     (if truthy (getAlbum sg) then [''album[0]''] else []) @ [''api_sig''] \<and>
   get_prop (request_params env this (scrobble_params this sg (s_sessionID s)) True) ''method''
     = JStr ''track.scrobble'' \<and>
   get_prop (request_params env this (scrobble_params this sg (s_sessionID s)) True) ''track[0]''
     = or_else (processed_track sg) (parsed_track sg) \<and>
   get_prop (request_params env this (scrobble_params this sg (s_sessionID s)) True) ''artist[0]''
     = or_else (processed_artist sg) (parsed_artist sg) \<and>
   get_prop (request_params env this (scrobble_params this sg (s_sessionID s)) True) ''timestamp[0]''
     = startTimestamp sg \<and>
   get_prop (request_params env this (scrobble_params this sg (s_sessionID s)) True) ''sk''
     = s_sessionID s \<and>
   (truthy (getAlbum sg) \<longrightarrow>
      get_prop (request_params env this (scrobble_params this sg (s_sessionID s)) True) ''album[0]''
        = getAlbum sg) \<and>
   ((''album[0]'' \<in> set (own_keys (request_params env this (scrobble_params this sg (s_sessionID s)) True)))
      = truthy (getAlbum sg))"
proof -
  assume a: "fst (getSession env this data) = Inr s"
  then obtain data' reqs where g: "getSession env this data = (Inr s, data', reqs)"
    by (cases "getSession env this data") auto
  have "snd (snd (scrobble env this sg data)) =
     snd (snd (getSession env this data)) @
     [Request POST (apiUrl this @ ''?'' @
        createQueryString (request_params env this (scrobble_params this sg (s_sessionID s)) True))]"
    using scrobble_requests [OF g] g by (simp add: doRequest_request_def)
  then show ?thesis
    by (simp add: own_keys_request_params get_prop_request_params get_prop_scrobble_params)
qed

theorem scrobble_request_witness:
  "fst (getSession (demo_platform (Response 200 xml_ok)) demo_scrobbler
          \<lparr>token = JNull, sessionID = JStr ''sess1'', sessionName = JStr ''u1''\<rparr>)
     = Inr \<lparr>s_sessionID = JStr ''sess1'', s_sessionName = JStr ''u1''\<rparr> \<and>
   snd (snd (scrobble (demo_platform (Response 200 xml_ok)) demo_scrobbler
          \<lparr>parsed_track = JStr ''T'', parsed_artist = JStr ''A'', processed_track = JNull,
           processed_artist = JNull, startTimestamp = JNum 1000, album = JNull\<rparr>
          \<lparr>token = JNull, sessionID = JStr ''sess1'', sessionName = JStr ''u1''\<rparr>))
     = [Request POST (apiUrl demo_scrobbler @ ''?'' @ createQueryString
          (request_params (demo_platform (Response 200 xml_ok)) demo_scrobbler
             (scrobble_params demo_scrobbler
                \<lparr>parsed_track = JStr ''T'', parsed_artist = JStr ''A'', processed_track = JNull,
                 processed_artist = JNull, startTimestamp = JNum 1000, album = JNull\<rparr>
                (JStr ''sess1'')) True))] \<and>
   own_keys (request_params (demo_platform (Response 200 xml_ok)) demo_scrobbler
             (scrobble_params demo_scrobbler
                \<lparr>parsed_track = JStr ''T'', parsed_artist = JStr ''A'', processed_track = JNull,
                 processed_artist = JNull, startTimestamp = JNum 1000, album = JNull\<rparr>
                (JStr ''sess1'')) True)
     = [''method'', ''timestamp[0]'', ''track[0]'', ''artist[0]'', ''api_key'', ''sk'', ''api_sig''] \<and>
   createQueryString (request_params (demo_platform (Response 200 xml_ok)) demo_scrobbler
             (scrobble_params demo_scrobbler
                \<lparr>parsed_track = JStr ''T'', parsed_artist = JStr ''A'', processed_track = JNull,
                 processed_artist = JNull, startTimestamp = JNum 1000, album = JNull\<rparr>
                (JStr ''sess1'')) True)
     = ''method=track.scrobble&timestamp[0]=1000&track[0]=T&artist[0]=A&api_key=KEY&sk=sess1&api_sig=md5(api_keyKEYartist%5B0%5DAmethodtrack.scrobblesksess1timestamp%5B0%5D1000track%5B0%5DTSECRET)''"
proof -
  have q: "createQueryString (request_params (demo_platform (Response 200 xml_ok)) demo_scrobbler
             (scrobble_params demo_scrobbler
                \<lparr>parsed_track = JStr ''T'', parsed_artist = JStr ''A'', processed_track = JNull,
                 processed_artist = JNull, startTimestamp = JNum 1000, album = JNull\<rparr>
                (JStr ''sess1'')) True)
     = ''method=track.scrobble&timestamp[0]=1000&track[0]=T&artist[0]=A&api_key=KEY&sk=sess1&api_sig=md5(api_keyKEYartist%5B0%5DAmethodtrack.scrobblesksess1timestamp%5B0%5D1000track%5B0%5DTSECRET)''"
    by code_simp
  have g: "getSession (demo_platform (Response 200 xml_ok)) demo_scrobbler
          \<lparr>token = JNull, sessionID = JStr ''sess1'', sessionName = JStr ''u1''\<rparr>
     = (Inr \<lparr>s_sessionID = JStr ''sess1'', s_sessionName = JStr ''u1''\<rparr>,
        \<lparr>token = JNull, sessionID = JStr ''sess1'', sessionName = JStr ''u1''\<rparr>, [])"
    by (simp add: getSession_def or_else_def)
  then have h: "fst (getSession (demo_platform (Response 200 xml_ok)) demo_scrobbler
          \<lparr>token = JNull, sessionID = JStr ''sess1'', sessionName = JStr ''u1''\<rparr>)
     = Inr \<lparr>s_sessionID = JStr ''sess1'', s_sessionName = JStr ''u1''\<rparr>"
    by simp
  from scrobble_request [OF h,
      of "\<lparr>parsed_track = JStr ''T'', parsed_artist = JStr ''A'', processed_track = JNull,
           processed_artist = JNull, startTimestamp = JNum 1000, album = JNull\<rparr>"] h g
  have main: "fst (getSession (demo_platform (Response 200 xml_ok)) demo_scrobbler
          \<lparr>token = JNull, sessionID = JStr ''sess1'', sessionName = JStr ''u1''\<rparr>)
     = Inr \<lparr>s_sessionID = JStr ''sess1'', s_sessionName = JStr ''u1''\<rparr> \<and>
   snd (snd (scrobble (demo_platform (Response 200 xml_ok)) demo_scrobbler
          \<lparr>parsed_track = JStr ''T'', parsed_artist = JStr ''A'', processed_track = JNull,
           processed_artist = JNull, startTimestamp = JNum 1000, album = JNull\<rparr>
          \<lparr>token = JNull, sessionID = JStr ''sess1'', sessionName = JStr ''u1''\<rparr>))
     = [Request POST (apiUrl demo_scrobbler @ ''?'' @ createQueryString
          (request_params (demo_platform (Response 200 xml_ok)) demo_scrobbler
             (scrobble_params demo_scrobbler
                \<lparr>parsed_track = JStr ''T'', parsed_artist = JStr ''A'', processed_track = JNull,
                 processed_artist = JNull, startTimestamp = JNum 1000, album = JNull\<rparr>
                (JStr ''sess1'')) True))] \<and>
   own_keys (request_params (demo_platform (Response 200 xml_ok)) demo_scrobbler
             (scrobble_params demo_scrobbler
                \<lparr>parsed_track = JStr ''T'', parsed_artist = JStr ''A'', processed_track = JNull,
                 processed_artist = JNull, startTimestamp = JNum 1000, album = JNull\<rparr>
                (JStr ''sess1'')) True)
     = [''method'', ''timestamp[0]'', ''track[0]'', ''artist[0]'', ''api_key'', ''sk'', ''api_sig'']"
    by (simp add: getAlbum_def)
  from main q show ?thesis by blast
qed

section \<open>The credential store\<close>

lemma getAuthUrl_inv: "cred_inv data \<Longrightarrow> cred_inv (fst (snd (getAuthUrl env this arrival data)))"
  by (auto simp: getAuthUrl_def getAuthUrl_chain_def Let_def cred_inv_def is_set_def
           split: option.splits prod.splits fetch_outcome.splits if_splits)

lemma getSession_inv: "cred_inv data \<Longrightarrow> cred_inv (fst (snd (getSession env this data)))"
  by (cases "truthy (token data)")
     (auto simp: getSession_trade getSession_no_trade invalidate_def cred_inv_def is_set_def
           split: sum.splits session_field.splits)

text \<open>
  C4. Token and session id are never both set in the store: \<^verbatim>\<open>getAuthUrl\<close> and
  \<^verbatim>\<open>getSession\<close> keep it so, whatever the service answers, and every store reachable
  from the empty one by these calls has at most one of the two set.
\<close>

theorem credentials_invariant:
  "(cred_inv data \<longrightarrow>
      cred_inv (fst (snd (getAuthUrl env this arrival data))) \<and>
      cred_inv (fst (snd (getSession env this data)))) \<and>
   (reachable data \<longrightarrow> cred_inv data)"
proof (intro conjI impI)
  assume "reachable data"
  then show "cred_inv data"
  proof (induction rule: reachable.induct)
    case reachable_empty
    show ?case by (simp add: cred_inv_def is_set_def empty_credentials_def)
  next
    case (reachable_getAuthUrl data env this arrival)
    then show ?case by (simp add: getAuthUrl_inv)
  next
    case (reachable_getSession data env this)
    then show ?case by (simp add: getSession_inv)
  qed
qed (simp_all add: getAuthUrl_inv getSession_inv)

theorem credentials_invariant_witness:
  "cred_inv empty_credentials \<and>
   reachable \<lparr>token = JStr ''abc123'', sessionID = JNull, sessionName = JUndefined\<rparr> \<and>
   cred_inv \<lparr>token = JStr ''abc123'', sessionID = JNull, sessionName = JUndefined\<rparr> \<and>
   cred_inv (fst (snd (getSession (demo_platform (Response 200 json_session)) demo_scrobbler
      \<lparr>token = JStr ''abc123'', sessionID = JNull, sessionName = JUndefined\<rparr>)))"
proof -
  have e: "cred_inv empty_credentials"
    by (simp add: cred_inv_def is_set_def empty_credentials_def)
  have "fst (snd (getAuthUrl (demo_platform (Response 200 xml_ok)) demo_scrobbler (Some 120)
          empty_credentials))
        = \<lparr>token = JStr ''abc123'', sessionID = JNull, sessionName = JUndefined\<rparr>"
    by (simp add: getAuthUrl_def getAuthUrl_chain_def Let_def empty_credentials_def)
  with reachable_getAuthUrl [OF reachable_empty,
      of "demo_platform (Response 200 xml_ok)" demo_scrobbler "Some 120"]
  have r: "reachable \<lparr>token = JStr ''abc123'', sessionID = JNull, sessionName = JUndefined\<rparr>"
    by simp
  from credentials_invariant
      [of "\<lparr>token = JStr ''abc123'', sessionID = JNull, sessionName = JUndefined\<rparr>"
        "demo_platform (Response 200 json_session)" demo_scrobbler None] e r
  show ?thesis by blast
qed

end
